theory Spec2Isabelle
  imports Main
begin

section \<open>Data model\<close>

text \<open>
  A Python \<open>datetime\<close> is a structure of calendar fields. The engine only ever reads a
  timestamp through \<open>strftime('%Y%m%d%H%M%S')\<close> converted with \<open>int\<close>: the month, day, hour,
  minute and second are printed with two digits each, so the integer is the positional
  number below, and the microseconds do not take part.
\<close>

record datetime =
  year :: nat
  month :: nat
  day :: nat
  hour :: nat
  minute :: nat
  second :: nat
  microsecond :: nat

definition strftime_int :: "datetime \<Rightarrow> nat" where
  "strftime_int t =
     year t * 10000000000 + month t * 100000000 + day t * 1000000
       + hour t * 10000 + minute t * 100 + second t"

text \<open>
  \<open>database.py\<close>, class \<open>AnythingLLMDocument\<close>: the tracked document.
\<close>

record AnythingLLMDocument =
  local_file_path :: string
  upload_timestamp :: datetime
  anythingllm_document_location :: string
  content :: string

text \<open>
  \<open>config.py\<close>, class \<open>AnythingLLMConfig\<close>.
\<close>

record AnythingLLMConfig =
  api_key :: string
  file_paths :: "string list"
  directory_excludes :: "string list"
  file_excludes :: "string list"
  workspace_slug :: string

section \<open>String helpers of the Python runtime\<close>

text \<open>\<open>s.startswith(p)\<close>.\<close>

fun startswith :: "string \<Rightarrow> string \<Rightarrow> bool" where
  "startswith s [] = True"
| "startswith [] (p # ps) = False"
| "startswith (c # cs) (p # ps) = (c = p \<and> startswith cs ps)"

text \<open>\<open>sub in s\<close> on strings: \<open>sub\<close> occurs in \<open>s\<close> as a contiguous substring.\<close>

fun py_in :: "string \<Rightarrow> string \<Rightarrow> bool" where
  "py_in sub [] = (sub = [])"
| "py_in sub (c # cs) = (startswith (c # cs) sub \<or> py_in sub cs)"

text \<open>
  \<open>s.split(sep)\<close> for a one-character separator: every occurrence of the separator cuts,
  and the result always has at least one element.
\<close>

fun py_split :: "char \<Rightarrow> string \<Rightarrow> string list" where
  "py_split sep [] = [[]]"
| "py_split sep (c # cs) =
     (if c = sep then [] # py_split sep cs
      else (case py_split sep cs of
              [] \<Rightarrow> [[c]]
            | x # xs \<Rightarrow> (c # x) # xs))"

text \<open>\<open>s.rfind(c)\<close>: the highest index of \<open>c\<close> in \<open>s\<close>, or \<open>-1\<close>.\<close>

definition rfind :: "char \<Rightarrow> string \<Rightarrow> int" where
  "rfind c s =
     (if c \<in> set s
      then int (length s) - 1 - int (length (takeWhile (\<lambda>x. x \<noteq> c) (rev s)))
      else - 1)"

text \<open>
  \<open>pathlib\<close>: \<open>file.name\<close> is the last component of the path, \<open>file.suffix\<close> the part of
  the name from its last dot, unless that dot is the first or the last character of the name.
\<close>

definition path_name :: "string \<Rightarrow> string" where
  "path_name p = last (py_split CHR ''/'' p)"

definition path_suffix :: "string \<Rightarrow> string" where
  "path_suffix p =
     (let name = path_name p; i = rfind CHR ''.'' name
      in if 0 < i \<and> i < int (length name) - 1 then drop (nat i) name else [])"

section \<open>The ledger (\<open>database.py\<close>)\<close>

text \<open>
  The table \<open>documents\<close> has an integer primary key \<open>id\<close> of its own and no constraint on
  \<open>local_file_path\<close>; its rows are a list in insertion order. \<open>add_document\<close> is a plain
  \<open>INSERT\<close>. The timestamp is written with \<open>strftime('%Y-%m-%d %H:%M:%S')\<close> and parsed back
  by \<open>get_documents\<close>, so a stored timestamp has no microseconds.
\<close>

definition db_timestamp :: "datetime \<Rightarrow> datetime" where
  "db_timestamp t = t\<lparr>microsecond := 0\<rparr>"

definition add_document ::
  "AnythingLLMDocument \<Rightarrow> AnythingLLMDocument list \<Rightarrow> AnythingLLMDocument list" where
  "add_document d rows = rows @ [d\<lparr>upload_timestamp := db_timestamp (upload_timestamp d)\<rparr>]"

text \<open>\<open>DELETE FROM documents WHERE local_file_path = ?\<close>\<close>

definition remove_document ::
  "string \<Rightarrow> AnythingLLMDocument list \<Rightarrow> AnythingLLMDocument list" where
  "remove_document local_document_path rows =
     filter (\<lambda>d. local_file_path d \<noteq> local_document_path) rows"

definition get_documents :: "AnythingLLMDocument list \<Rightarrow> AnythingLLMDocument list" where
  "get_documents rows = rows"

section \<open>The environment: file system and remote server\<close>

text \<open>
  The file system as the program reads it: \<open>Path.resolve\<close>, \<open>rglob("*")\<close> (each entry with
  the result of \<open>is_file()\<close>), \<open>stat().st_mtime\<close> converted by \<open>datetime.fromtimestamp\<close>,
  \<open>os.path.getsize\<close>, and whether SQLite can create the database file.
\<close>

record filesystem =
  resolve :: "string \<Rightarrow> string"
  rglob :: "string \<Rightarrow> (string \<times> bool) list"
  st_mtime :: "string \<Rightarrow> datetime"
  getsize :: "string \<Rightarrow> nat"
  sqlite_create_ok :: bool

text \<open>
  The remote server is a state machine of an arbitrary state type \<open>'r\<close>; each HTTP request
  of \<open>anythingllm_api.py\<close> and of purge mode is one of its transitions and answers with a
  status code. The upload answer carries \<open>success\<close> and \<open>documents[0]\<close>, of which the engine
  reads \<open>location\<close> and the \<open>json.dumps\<close> text.
\<close>

record upload_document_response =
  location :: string
  json_dumps :: string

record upload_http_response =
  status_code :: nat
  success :: bool
  documents_0 :: upload_document_response

record 'r server =
  get_auth :: "'r \<Rightarrow> bool"
  post_document_upload :: "string \<Rightarrow> 'r \<Rightarrow> upload_http_response \<times> 'r"
  post_update_embeddings_adds :: "string \<Rightarrow> 'r \<Rightarrow> nat \<times> 'r"
  post_update_embeddings_deletes :: "string \<Rightarrow> 'r \<Rightarrow> nat \<times> 'r"
  post_remove_documents :: "string \<Rightarrow> 'r \<Rightarrow> nat \<times> 'r"
  get_workspace_docpaths :: "'r \<Rightarrow> string list"
  post_purge_embeddings :: "string list \<Rightarrow> 'r \<Rightarrow> nat \<times> 'r"
  delete_purge_raw :: "string list \<Rightarrow> 'r \<Rightarrow> nat \<times> 'r"

text \<open>
  The calls the engine makes, in order. \<open>Unload loc target\<close> is a call of
  \<open>unload_document(loc)\<close> whose HTTP request names \<open>target\<close>.
\<close>

datatype call =
    Upload string
  | Embed string
  | Unembed string
  | Unload string string
  | PurgeEmbeddings "string list"
  | PurgeRaw "string list"

record 'r world =
  db :: "AnythingLLMDocument list"
  db_exists :: bool
  remote :: 'r
  calls :: "call list"

section \<open>The client (\<open>anythingllm_api.py\<close>)\<close>

definition supported_file_types :: "string list" where
  "supported_file_types =
     [''txt'', ''md'', ''org'', ''adoc'', ''rst'', ''html'', ''docx'', ''odt'', ''odp'', ''pdf'',
      ''mbox'', ''epub'', ''js'', ''j2'', ''py'', ''java'', ''sh'', ''json'', ''yaml'', ''yml'',
      ''sql'', ''toml'', ''csv'', ''tsv'', ''ini'', ''conf'', ''log'', ''cfg'', ''properties'',
      ''xml'', ''jsonl'', ''csv'', ''tsv'', ''ini'', ''conf'', ''log'', ''cfg'', ''properties'',
      ''xml'', ''jsonl'']"

definition authenticate :: "'r server \<Rightarrow> 'r \<Rightarrow> bool" where
  "authenticate srv r = get_auth srv r"

definition upload_document ::
  "filesystem \<Rightarrow> 'r server \<Rightarrow> string \<Rightarrow> 'r \<Rightarrow> upload_document_response option \<times> 'r" where
  "upload_document fs srv local_document_path r =
     (if getsize fs local_document_path = 0 then (None, r)
      else if last (py_split CHR ''.'' local_document_path) \<notin> set supported_file_types
      then (None, r)
      else (case post_document_upload srv local_document_path r of
              (response, r') \<Rightarrow>
                if status_code response \<noteq> 200 then (None, r')
                else if \<not> success response then (None, r')
                else (Some (documents_0 response), r')))"

text \<open>
  \<open>\w\<close> of the regular expression. The pattern is a \<open>str\<close> pattern without
  \<open>re.ASCII\<close>, so \<open>\w\<close> is Unicode-aware: among the ASCII characters it matches the
  letters, the digits and the underscore; a character outside ASCII is matched when the
  Unicode database of the Python runtime classifies it as alphanumeric (an accented letter
  is, the copyright sign is not). That database is not part of the program's source; it is
  the parameter \<open>unicode_word\<close>, consulted only for characters outside ASCII. An element
  of a location stands for one character of the Python string.
\<close>

definition is_word_char :: "(char \<Rightarrow> bool) \<Rightarrow> char \<Rightarrow> bool" where
  "is_word_char unicode_word c =
     (let n = of_char c :: nat
      in if n < 128
         then (48 \<le> n \<and> n \<le> 57) \<or> (65 \<le> n \<and> n \<le> 90) \<or> (97 \<le> n \<and> n \<le> 122) \<or> n = 95
         else unicode_word c)"

text \<open>
  \<open>re.search(r".*\.xlsx-\w+\/sheet.*", s)\<close>. The pattern starts and ends with \<open>.*\<close> and
  the search may start at any position, so it succeeds exactly when \<open>.xlsx-\<close>, one or more
  word characters and \<open>/sheet\<close> occur in a row somewhere in \<open>s\<close>. The slash is not a word
  character, so the word characters are the longest run after \<open>.xlsx-\<close>.
\<close>

definition xlsx_sheet_at :: "(char \<Rightarrow> bool) \<Rightarrow> string \<Rightarrow> bool" where
  "xlsx_sheet_at unicode_word s =
     (startswith s ''.xlsx-'' \<and>
      (let rest = drop 6 s
       in takeWhile (is_word_char unicode_word) rest \<noteq> [] \<and>
          startswith (dropWhile (is_word_char unicode_word) rest) ''/sheet''))"

fun re_search_xlsx_sheet :: "(char \<Rightarrow> bool) \<Rightarrow> string \<Rightarrow> bool" where
  "re_search_xlsx_sheet unicode_word [] = False"
| "re_search_xlsx_sheet unicode_word (c # cs) =
     (xlsx_sheet_at unicode_word (c # cs) \<or> re_search_xlsx_sheet unicode_word cs)"

datatype py_error = IndexError

text \<open>\<open>xs[-2]\<close>\<close>

definition index_minus_2 :: "'a list \<Rightarrow> py_error + 'a" where
  "index_minus_2 xs = (if 2 \<le> length xs then Inr (xs ! (length xs - 2)) else Inl IndexError)"

text \<open>
  The document named in the request of \<open>unload_document\<close>: the rewrite of a spreadsheet
  sheet to its folder.
\<close>

definition unload_target :: "(char \<Rightarrow> bool) \<Rightarrow> string \<Rightarrow> py_error + string" where
  "unload_target unicode_word document_to_unload =
     (if re_search_xlsx_sheet unicode_word document_to_unload
      then index_minus_2 (py_split CHR ''/'' document_to_unload)
      else Inr document_to_unload)"

text \<open>
  \<open>unload_document\<close>. The \<open>IndexError\<close> branch cannot be taken (lemma
  \<open>unload_target_total\<close> below); it is written as a failed call without a request.
\<close>

definition unload_document ::
  "(char \<Rightarrow> bool) \<Rightarrow> 'r server \<Rightarrow> string \<Rightarrow> 'r world \<Rightarrow> bool \<times> 'r world" where
  "unload_document unicode_word srv document_to_unload w =
     (case unload_target unicode_word document_to_unload of
        Inl e \<Rightarrow> (False, w)
      | Inr target \<Rightarrow>
          (case post_remove_documents srv target (remote w) of
             (status, r') \<Rightarrow>
               (status = 200,
                w\<lparr>remote := r', calls := calls w @ [Unload document_to_unload target]\<rparr>)))"

definition embed_new_document :: "'r server \<Rightarrow> string \<Rightarrow> 'r world \<Rightarrow> 'r world" where
  "embed_new_document srv document_to_embed w =
     w\<lparr>remote := snd (post_update_embeddings_adds srv document_to_embed (remote w)),
       calls := calls w @ [Embed document_to_embed]\<rparr>"

definition unembed_document :: "'r server \<Rightarrow> string \<Rightarrow> 'r world \<Rightarrow> 'r world" where
  "unembed_document srv document_to_unembed w =
     w\<lparr>remote := snd (post_update_embeddings_deletes srv document_to_unembed (remote w)),
       calls := calls w @ [Unembed document_to_unembed]\<rparr>"

text \<open>\<open>list(set(paths))\<close>: the document paths without repetitions.\<close>

definition fetch_embedded_workspace_documents :: "'r server \<Rightarrow> 'r \<Rightarrow> string list" where
  "fetch_embedded_workspace_documents srv r = remdups (get_workspace_docpaths srv r)"

section \<open>The engine (\<open>ingest_anythingllm_docs.py\<close>)\<close>

subsection \<open>Local scanner\<close>

definition excluded :: "AnythingLLMConfig \<Rightarrow> string \<Rightarrow> bool" where
  "excluded config file =
     (list_ex (\<lambda>excl. py_in excl (path_name file)) (file_excludes config) \<or>
      list_ex (\<lambda>excl. py_in excl file) (directory_excludes config))"

definition file_ext :: "string \<Rightarrow> string" where
  "file_ext file = dropWhile (\<lambda>c. c = CHR ''.'') (path_suffix file)"

definition included :: "AnythingLLMConfig \<Rightarrow> string \<times> bool \<Rightarrow> bool" where
  "included config entry =
     (case entry of (file, is_file) \<Rightarrow>
        if excluded config file then False
        else if file_ext file \<notin> set supported_file_types then False
        else is_file)"

definition fetch_local_documents :: "AnythingLLMConfig \<Rightarrow> filesystem \<Rightarrow> string list" where
  "fetch_local_documents config fs =
     concat (map (\<lambda>base_path_str.
                    map fst (filter (included config) (rglob fs (resolve fs base_path_str))))
                 (file_paths config))"

subsection \<open>Phase 1: uploads\<close>

text \<open>
  The inner loop over \<open>loaded_documents\<close>: a record of the path with a newer file only
  logs and the loop goes on; a record of the path that is not older than the file sets
  \<open>document_loaded\<close> and breaks.
\<close>

fun document_loaded :: "string \<Rightarrow> datetime \<Rightarrow> AnythingLLMDocument list \<Rightarrow> bool" where
  "document_loaded local_document local_mtime [] = False"
| "document_loaded local_document local_mtime (loaded_doc # rest) =
     (if local_file_path loaded_doc = local_document
      then (if strftime_int local_mtime > strftime_int (upload_timestamp loaded_doc)
            then document_loaded local_document local_mtime rest
            else True)
      else document_loaded local_document local_mtime rest)"

definition upload_one :: "filesystem \<Rightarrow> 'r server \<Rightarrow> string \<Rightarrow> 'r world \<Rightarrow> 'r world" where
  "upload_one fs srv local_document w =
     (case upload_document fs srv local_document (remote w) of
        (response, r') \<Rightarrow>
          (let w' = w\<lparr>remote := r', calls := calls w @ [Upload local_document]\<rparr>
           in case response of
                Some resp \<Rightarrow>
                  w'\<lparr>db := add_document
                            \<lparr>local_file_path = local_document,
                             upload_timestamp = st_mtime fs local_document,
                             anythingllm_document_location = location resp,
                             content = json_dumps resp\<rparr> (db w')\<rparr>
              | None \<Rightarrow> w'))"

fun upload_new_documents ::
  "filesystem \<Rightarrow> 'r server \<Rightarrow> string list \<Rightarrow> AnythingLLMDocument list \<Rightarrow> 'r world \<Rightarrow> 'r world" where
  "upload_new_documents fs srv [] loaded_documents w = w"
| "upload_new_documents fs srv (local_document # rest) loaded_documents w =
     (if document_loaded local_document (st_mtime fs local_document) loaded_documents
      then upload_new_documents fs srv rest loaded_documents w
      else upload_new_documents fs srv rest loaded_documents (upload_one fs srv local_document w))"

subsection \<open>Phase 2: embeddings\<close>

definition to_embed :: "AnythingLLMDocument list \<Rightarrow> string list \<Rightarrow> string list" where
  "to_embed loaded_documents embedded_documents =
     map anythingllm_document_location
       (filter (\<lambda>doc. anythingllm_document_location doc \<notin> set embedded_documents)
          loaded_documents)"

definition embed_new_documents ::
  "'r server \<Rightarrow> AnythingLLMDocument list \<Rightarrow> string list \<Rightarrow> 'r world \<Rightarrow> 'r world" where
  "embed_new_documents srv loaded_documents embedded_documents w =
     foldl (\<lambda>w loc. embed_new_document srv loc w) w (to_embed loaded_documents embedded_documents)"

subsection \<open>Phase 3: removal of embeddings\<close>

text \<open>
  \<open>next((d for d in loaded_documents if ... == emb_loc), None)\<close> is \<open>find\<close>: the first
  record with that location.
\<close>

definition must_unembed :: "string list \<Rightarrow> AnythingLLMDocument list \<Rightarrow> string \<Rightarrow> bool" where
  "must_unembed local_documents loaded_documents emb_loc =
     (case find (\<lambda>d. anythingllm_document_location d = emb_loc) loaded_documents of
        None \<Rightarrow> True
      | Some loaded_doc \<Rightarrow> local_file_path loaded_doc \<notin> set local_documents)"

definition to_unembed ::
  "string list \<Rightarrow> AnythingLLMDocument list \<Rightarrow> string list \<Rightarrow> string list" where
  "to_unembed local_documents loaded_documents embedded_documents =
     filter (must_unembed local_documents loaded_documents) embedded_documents"

definition remove_embedded_documents ::
  "'r server \<Rightarrow> string list \<Rightarrow> AnythingLLMDocument list \<Rightarrow> string list \<Rightarrow> 'r world \<Rightarrow> 'r world" where
  "remove_embedded_documents srv local_documents loaded_documents embedded_documents w =
     foldl (\<lambda>w loc. unembed_document srv loc w) w
       (to_unembed local_documents loaded_documents embedded_documents)"

subsection \<open>Phase 4: removal of uploads\<close>

definition to_unload :: "string list \<Rightarrow> AnythingLLMDocument list \<Rightarrow> string list" where
  "to_unload local_documents loaded_documents =
     map anythingllm_document_location
       (filter (\<lambda>doc. local_file_path doc \<notin> set local_documents) loaded_documents)"

text \<open>
  One turn of the loop: \<open>if anything_llm.unload_document(loc): database.remove_document(loc)\<close>.
  The value handed to \<open>remove_document\<close> is the remote location.
\<close>

definition unload_one ::
  "(char \<Rightarrow> bool) \<Rightarrow> 'r server \<Rightarrow> string \<Rightarrow> 'r world \<Rightarrow> 'r world" where
  "unload_one unicode_word srv loc w =
     (case unload_document unicode_word srv loc w of
        (ok, w') \<Rightarrow> if ok then w'\<lparr>db := remove_document loc (db w')\<rparr> else w')"

definition remove_loaded_documents ::
  "(char \<Rightarrow> bool) \<Rightarrow> 'r server \<Rightarrow> string list \<Rightarrow> AnythingLLMDocument list \<Rightarrow>
     'r world \<Rightarrow> 'r world" where
  "remove_loaded_documents unicode_word srv local_documents loaded_documents w =
     foldl (\<lambda>w loc. unload_one unicode_word srv loc w) w
       (to_unload local_documents loaded_documents)"

subsection \<open>\<open>main\<close>\<close>

record args =
  force :: bool
  purge :: bool
  purge_raw :: bool

text \<open>\<open>db_path.unlink()\<close> and \<open>initialize_database\<close>.\<close>

definition unlink_db :: "'r world \<Rightarrow> 'r world" where
  "unlink_db w = w\<lparr>db := [], db_exists := False\<rparr>"

definition initialize_database :: "filesystem \<Rightarrow> 'r world \<Rightarrow> bool \<times> 'r world" where
  "initialize_database fs w =
     (if \<not> db_exists w
      then (if sqlite_create_ok fs then (True, w\<lparr>db := [], db_exists := True\<rparr>) else (False, w))
      else (True, w))"

text \<open>The block \<open>PURGE MODE\<close> of \<open>main\<close>.\<close>

definition purge_embeddings :: "'r server \<Rightarrow> 'r world \<Rightarrow> bool \<times> 'r world" where
  "purge_embeddings srv w =
     (let embedded = fetch_embedded_workspace_documents srv (remote w)
      in if embedded = [] then (True, w)
         else (case post_purge_embeddings srv embedded (remote w) of
                 (status, r') \<Rightarrow>
                   (status = 200, w\<lparr>remote := r', calls := calls w @ [PurgeEmbeddings embedded]\<rparr>)))"

definition purge_raw_files :: "'r server \<Rightarrow> 'r world \<Rightarrow> 'r world" where
  "purge_raw_files srv w =
     (let loaded = get_documents (db w)
      in if loaded = [] then w
         else (let raw_locations = map anythingllm_document_location loaded
               in case delete_purge_raw srv raw_locations (remote w) of
                    (status, r') \<Rightarrow> w\<lparr>remote := r', calls := calls w @ [PurgeRaw raw_locations]\<rparr>))"

definition purge_mode :: "'r server \<Rightarrow> args \<Rightarrow> 'r world \<Rightarrow> 'r world" where
  "purge_mode srv a w =
     (case purge_embeddings srv w of
        (ok, w1) \<Rightarrow>
          if \<not> ok then w1
          else (let w2 = (if purge_raw a then purge_raw_files srv w1 else w1)
                in if db_exists w2 then unlink_db w2 else w2))"

text \<open>The block \<open>NORMAL SYNC\<close> of \<open>main\<close>.\<close>

definition normal_sync ::
  "(char \<Rightarrow> bool) \<Rightarrow> AnythingLLMConfig \<Rightarrow> filesystem \<Rightarrow> 'r server \<Rightarrow> 'r world \<Rightarrow> 'r world" where
  "normal_sync unicode_word config fs srv w =
     (let local_documents = fetch_local_documents config fs;
          loaded_documents = get_documents (db w);
          w1 = upload_new_documents fs srv local_documents loaded_documents w;
          embedded_documents = fetch_embedded_workspace_documents srv (remote w1);
          loaded_documents = get_documents (db w1);
          w2 = embed_new_documents srv loaded_documents embedded_documents w1;
          embedded_documents = fetch_embedded_workspace_documents srv (remote w2);
          w3 = remove_embedded_documents srv local_documents loaded_documents embedded_documents w2
      in remove_loaded_documents unicode_word srv local_documents loaded_documents w3)"

definition main ::
  "(char \<Rightarrow> bool) \<Rightarrow> args \<Rightarrow> AnythingLLMConfig \<Rightarrow> filesystem \<Rightarrow> 'r server \<Rightarrow>
     'r world \<Rightarrow> 'r world" where
  "main unicode_word a config fs srv w =
     (if \<not> authenticate srv (remote w) then w
      else (let w0 = (if force a \<and> db_exists w then unlink_db w else w)
            in case initialize_database fs w0 of
                 (ok, w1) \<Rightarrow>
                   if \<not> ok then w1
                   else if purge a then purge_mode srv a w1
                   else normal_sync unicode_word config fs srv w1))"

section \<open>Observing a run\<close>

text \<open>The calls made between two states of a run: what the later one has appended.\<close>

definition new_calls :: "'r world \<Rightarrow> 'r world \<Rightarrow> call list" where
  "new_calls w w' = drop (length (calls w)) (calls w')"

section \<open>A concrete corpus and a simulated server\<close>

text \<open>
  A small installation on which the functions are run: one configured root \<open>/docs\<close> holding
  \<open>a.txt\<close> and a file below \<open>.git\<close>, and a server that answers every request with
  success and keeps the embedded document paths as its state.
\<close>

definition t_old :: datetime where
  "t_old = \<lparr>year = 2024, month = 1, day = 1, hour = 12, minute = 0, second = 0, microsecond = 0\<rparr>"

definition t_new :: datetime where
  "t_new =
     \<lparr>year = 2024, month = 1, day = 1, hour = 12, minute = 0, second = 1, microsecond = 250000\<rparr>"

definition example_config :: AnythingLLMConfig where
  "example_config =
     \<lparr>api_key = ''key'', file_paths = [''/docs''], directory_excludes = [''.git''],
      file_excludes = [''.tmp''], workspace_slug = ''ws''\<rparr>"

definition example_fs :: filesystem where
  "example_fs =
     \<lparr>resolve = (\<lambda>p. p),
      rglob = (\<lambda>base. if base = ''/docs''
                        then [(''/docs/a.txt'', True), (''/docs/.git/c.txt'', True)] else []),
      st_mtime = (\<lambda>p. t_new),
      getsize = (\<lambda>p. 1),
      sqlite_create_ok = True\<rparr>"

definition sim_server :: "string list server" where
  "sim_server =
     \<lparr>get_auth = (\<lambda>r. True),
      post_document_upload = (\<lambda>p r.
         (\<lparr>status_code = 200, success = True,
           documents_0 = \<lparr>location = ''custom-documents/'' @ path_name p @ ''-new.json'',
                           json_dumps = ''{}''\<rparr>\<rparr>, r)),
      post_update_embeddings_adds = (\<lambda>loc r. (200, r @ [loc])),
      post_update_embeddings_deletes = (\<lambda>loc r. (200, removeAll loc r)),
      post_remove_documents = (\<lambda>target r. (200, r)),
      get_workspace_docpaths = (\<lambda>r. r),
      post_purge_embeddings = (\<lambda>names r. (200, filter (\<lambda>x. x \<notin> set names) r)),
      delete_purge_raw = (\<lambda>names r. (200, r))\<rparr>"

text \<open>The same server, except that the bulk deletion of raw files answers 500.\<close>

definition raw_failing_server :: "string list server" where
  "raw_failing_server = sim_server\<lparr>delete_purge_raw := (\<lambda>names r. (500, r))\<rparr>"

definition doc_a_old :: AnythingLLMDocument where
  "doc_a_old =
     \<lparr>local_file_path = ''/docs/a.txt'', upload_timestamp = t_old,
      anythingllm_document_location = ''custom-documents/a.txt-old.json'', content = ''{}''\<rparr>"

definition doc_a_synced :: AnythingLLMDocument where
  "doc_a_synced =
     \<lparr>local_file_path = ''/docs/a.txt'', upload_timestamp = db_timestamp t_new,
      anythingllm_document_location = ''custom-documents/a.txt-new.json'', content = ''{}''\<rparr>"

definition doc_gone :: AnythingLLMDocument where
  "doc_gone =
     \<lparr>local_file_path = ''/docs/gone.txt'', upload_timestamp = t_old,
      anythingllm_document_location = ''custom-documents/gone.txt-1.json'', content = ''{}''\<rparr>"

definition world_of :: "AnythingLLMDocument list \<Rightarrow> string list \<Rightarrow> string list world" where
  "world_of rows embedded = \<lparr>db = rows, db_exists = True, remote = embedded, calls = []\<rparr>"

definition normal_args :: args where
  "normal_args = \<lparr>force = False, purge = False, purge_raw = False\<rparr>"

definition purge_raw_args :: args where
  "purge_raw_args = \<lparr>force = False, purge = True, purge_raw = True\<rparr>"

text \<open>
  Two configured roots of which one lies below the other, so that \<open>rglob\<close> reaches
  \<open>b.md\<close> from both.
\<close>

definition overlap_config :: AnythingLLMConfig where
  "overlap_config =
     \<lparr>api_key = ''key'', file_paths = [''/docs'', ''/docs/sub''], directory_excludes = [''.git''],
      file_excludes = [''.tmp''], workspace_slug = ''ws''\<rparr>"

definition overlap_fs :: filesystem where
  "overlap_fs =
     \<lparr>resolve = (\<lambda>p. p),
      rglob = (\<lambda>base.
         if base = ''/docs''
         then [(''/docs/a.txt'', True), (''/docs/sub'', False), (''/docs/sub/b.md'', True)]
         else if base = ''/docs/sub'' then [(''/docs/sub/b.md'', True)] else []),
      st_mtime = (\<lambda>p. t_new),
      getsize = (\<lambda>p. 1),
      sqlite_create_ok = True\<rparr>"

text \<open>
  What \<open>\w\<close> matches among the characters U+0080 to U+00FF, an element of a location read
  as the character of that code point: the letters, the superscript digits and the vulgar
  fractions of Latin-1.
\<close>

definition latin1_word :: "char \<Rightarrow> bool" where
  "latin1_word c =
     (let n = of_char c :: nat
      in n = 170 \<or> n = 178 \<or> n = 179 \<or> n = 181 \<or> n = 185 \<or> n = 186 \<or>
         (188 \<le> n \<and> n \<le> 190) \<or> (192 \<le> n \<and> n \<le> 214) \<or>
         (216 \<le> n \<and> n \<le> 246) \<or> (248 \<le> n \<and> n \<le> 255))"

section \<open>Facts about the helpers\<close>

lemma startswith_iff: "startswith s p \<longleftrightarrow> (\<exists>t. s = p @ t)"
  by (induction s p rule: startswith.induct) auto

lemma py_in_iff: "py_in sub s \<longleftrightarrow> (\<exists>a b. s = a @ sub @ b)"
proof (induction s)
  case Nil
  then show ?case by auto
next
  case (Cons c cs)
  show ?case
  proof
    assume "py_in sub (c # cs)"
    then consider "startswith (c # cs) sub" | "py_in sub cs" by auto
    then show "\<exists>a b. c # cs = a @ sub @ b"
    proof cases
      case 1
      then obtain t where "c # cs = sub @ t" by (auto simp: startswith_iff)
      then have "c # cs = [] @ sub @ t" by simp
      then show ?thesis by blast
    next
      case 2
      then obtain a b where "cs = a @ sub @ b" using Cons.IH by blast
      then have "c # cs = (c # a) @ sub @ b" by simp
      then show ?thesis by blast
    qed
  next
    assume "\<exists>a b. c # cs = a @ sub @ b"
    then obtain a b where ab: "c # cs = a @ sub @ b" by blast
    show "py_in sub (c # cs)"
    proof (cases a)
      case Nil
      then have "startswith (c # cs) sub" using ab by (auto simp: startswith_iff)
      then show ?thesis by simp
    next
      case (Cons x a')
      then have "cs = a' @ sub @ b" using ab by simp
      then have "py_in sub cs" using Cons.IH by blast
      then show ?thesis by simp
    qed
  qed
qed

lemma py_split_not_Nil: "py_split sep s \<noteq> []"
  by (induction s) (auto split: list.splits)

lemma py_split_no_sep: "sep \<notin> set s \<Longrightarrow> py_split sep s = [s]"
  by (induction s) auto

lemma py_split_append_sep:
  "py_split sep (a @ sep # b) = py_split sep a @ py_split sep b"
proof (induction a)
  case Nil
  then show ?case by simp
next
  case (Cons c a)
  then show ?case
    using py_split_not_Nil [of sep a] by (cases "py_split sep a") auto
qed

lemma length_py_split: "length (py_split sep s) = Suc (count_list s sep)"
  by (induction s) (auto split: list.splits simp: py_split_not_Nil)

lemma py_split_dir:
  assumes "dir = [] \<or> last dir = sep" and "sep \<notin> set x"
  shows "\<exists>pre. py_split sep (dir @ x) = pre @ [x]"
proof (cases "dir = []")
  case True
  then show ?thesis using assms(2) by (simp add: py_split_no_sep)
next
  case False
  then obtain d where d: "dir = d @ [sep]"
    using assms(1) by (metis append_butlast_last_id)
  have "py_split sep (dir @ x) = py_split sep d @ [x]"
    using d py_split_append_sep [of sep d x] assms(2) by (simp add: py_split_no_sep)
  then show ?thesis by blast
qed

lemma two_last: "2 \<le> length xs \<Longrightarrow> \<exists>pre x y. xs = pre @ [x, y]"
proof -
  assume l: "2 \<le> length xs"
  then obtain ys y where ys: "xs = ys @ [y]" by (cases xs rule: rev_cases) auto
  then obtain pre x where "ys = pre @ [x]" using l by (cases ys rule: rev_cases) auto
  then show ?thesis using ys by simp
qed

lemma index_minus_2_snoc2: "index_minus_2 (pre @ [x, y]) = Inr x"
  by (simp add: index_minus_2_def nth_append)

lemma count_list_distinct: "distinct xs \<Longrightarrow> count_list xs x = (if x \<in> set xs then 1 else 0)"
  by (induction xs) auto

lemma count_list_map_Upload: "count_list (map Upload xs) (Upload p) = count_list xs p"
  by (induction xs) auto

lemma count_list_map_Unembed: "count_list (map Unembed xs) (Unembed p) = count_list xs p"
  by (induction xs) auto

lemma count_list_filter:
  "count_list (filter Q xs) p = (if Q p then count_list xs p else 0)"
  by (induction xs) auto

lemma takeWhile_first: "p \<notin> set xs \<Longrightarrow> takeWhile (\<lambda>q. q \<noteq> p) (xs @ p # ys) = xs"
  by (induction xs) auto

lemma strftime_int_db_timestamp: "strftime_int (db_timestamp t) = strftime_int t"
  by (simp add: strftime_int_def db_timestamp_def)

section \<open>The spreadsheet rewrite of \<open>unload_document\<close>\<close>

lemma word_char_not_slash: "is_word_char uw c \<Longrightarrow> c \<noteq> CHR ''/''"
  by (auto simp: is_word_char_def)

lemma xlsx_sheet_at_intro:
  assumes "ident \<noteq> []" and "\<forall>c \<in> set ident. is_word_char uw c"
  shows "xlsx_sheet_at uw (''.xlsx-'' @ ident @ ''/sheet'' @ t)"
proof -
  have nw: "\<not> is_word_char uw CHR ''/''" by (simp add: is_word_char_def)
  have tw: "takeWhile (is_word_char uw) (ident @ ''/sheet'' @ t) = ident"
    using assms(2) nw by (simp add: takeWhile_append2)
  have dw: "dropWhile (is_word_char uw) (ident @ ''/sheet'' @ t) = ''/sheet'' @ t"
    using assms(2) nw by (simp add: dropWhile_append2)
  show ?thesis
    using assms(1) tw dw by (simp add: xlsx_sheet_at_def)
qed

lemma re_search_append: "re_search_xlsx_sheet uw b \<Longrightarrow> re_search_xlsx_sheet uw (a @ b)"
  by (induction a) auto

lemma re_search_at: "xlsx_sheet_at uw s \<Longrightarrow> re_search_xlsx_sheet uw s"
  by (cases s) (auto simp: xlsx_sheet_at_def)

lemma xlsx_sheet_at_slash: "xlsx_sheet_at uw s \<Longrightarrow> CHR ''/'' \<in> set s"
proof -
  assume a: "xlsx_sheet_at uw s"
  then obtain t where t: "dropWhile (is_word_char uw) (drop 6 s) = ''/sheet'' @ t"
    by (auto simp: xlsx_sheet_at_def startswith_iff Let_def)
  have "CHR ''/'' \<in> set (dropWhile (is_word_char uw) (drop 6 s))" using t by simp
  then have "CHR ''/'' \<in> set (drop 6 s)" by (meson set_dropWhileD)
  then show ?thesis by (meson in_set_dropD)
qed

lemma re_search_slash: "re_search_xlsx_sheet uw s \<Longrightarrow> CHR ''/'' \<in> set s"
  by (induction s) (auto dest: xlsx_sheet_at_slash)

lemma re_search_two_parts:
  "re_search_xlsx_sheet uw loc \<Longrightarrow> 2 \<le> length (py_split CHR ''/'' loc)"
proof -
  assume "re_search_xlsx_sheet uw loc"
  then have "CHR ''/'' \<in> set loc" by (rule re_search_slash)
  then have "count_list loc CHR ''/'' \<noteq> 0" by (simp add: count_list_0_iff)
  then show ?thesis by (simp add: length_py_split)
qed

text \<open>The \<open>IndexError\<close> of \<open>split('/')[-2]\<close> cannot happen: a match contains a slash.\<close>

lemma unload_target_total: "\<exists>t. unload_target uw loc = Inr t"
proof (cases "re_search_xlsx_sheet uw loc")
  case True
  then have "2 \<le> length (py_split CHR ''/'' loc)" by (rule re_search_two_parts)
  then show ?thesis using True by (simp add: unload_target_def index_minus_2_def)
next
  case False
  then show ?thesis by (simp add: unload_target_def)
qed

lemma unload_target_match:
  assumes "re_search_xlsx_sheet uw loc"
  shows "\<exists>pre x y. py_split CHR ''/'' loc = pre @ [x, y] \<and> unload_target uw loc = Inr x"
proof -
  have "2 \<le> length (py_split CHR ''/'' loc)" using assms by (rule re_search_two_parts)
  then obtain pre x y where p: "py_split CHR ''/'' loc = pre @ [x, y]"
    using two_last by blast
  then have "unload_target uw loc = Inr x"
    using assms by (simp only: unload_target_def if_True index_minus_2_snoc2)
  then show ?thesis using p by blast
qed

lemma unload_target_sheet:
  assumes "dir = [] \<or> last dir = CHR ''/''"
      and "CHR ''/'' \<notin> set name" and "CHR ''/'' \<notin> set n"
      and "ident \<noteq> []" and "\<forall>c \<in> set ident. is_word_char uw c"
  shows "unload_target uw (dir @ name @ ''.xlsx-'' @ ident @ ''/sheet-'' @ n @ ''.json'')
           = Inr (name @ ''.xlsx-'' @ ident)"
proof -
  let ?X = "name @ ''.xlsx-'' @ ident"
  let ?Y = "''sheet-'' @ n @ ''.json''"
  let ?loc = "dir @ name @ ''.xlsx-'' @ ident @ ''/sheet-'' @ n @ ''.json''"
  have loc: "?loc = (dir @ ?X) @ CHR ''/'' # ?Y" by simp
  have "xlsx_sheet_at uw (''.xlsx-'' @ ident @ ''/sheet'' @ (''-'' @ n @ ''.json''))"
    using assms(4,5) by (rule xlsx_sheet_at_intro)
  then have "re_search_xlsx_sheet uw (''.xlsx-'' @ ident @ ''/sheet'' @ (''-'' @ n @ ''.json''))"
    by (rule re_search_at)
  then have "re_search_xlsx_sheet uw
      ((dir @ name) @ ''.xlsx-'' @ ident @ ''/sheet'' @ (''-'' @ n @ ''.json''))"
    by (rule re_search_append)
  then have m: "re_search_xlsx_sheet uw ?loc" by simp
  have xs: "CHR ''/'' \<notin> set ?X"
    using assms(2,5) word_char_not_slash by auto
  have ys: "CHR ''/'' \<notin> set ?Y" using assms(3) by simp
  obtain pre where pre: "py_split CHR ''/'' (dir @ ?X) = pre @ [?X]"
    using py_split_dir [OF assms(1) xs] by blast
  have "py_split CHR ''/'' ?loc = py_split CHR ''/'' (dir @ ?X) @ py_split CHR ''/'' ?Y"
    unfolding loc by (rule py_split_append_sep)
  then have "py_split CHR ''/'' ?loc = pre @ [?X, ?Y]"
    using pre ys by (simp add: py_split_no_sep)
  then have "index_minus_2 (py_split CHR ''/'' ?loc) = Inr ?X"
    by (simp only: index_minus_2_snoc2)
  then show ?thesis using m by (simp only: unload_target_def if_True)
qed

lemma new_calls_unload_document:
  "unload_target uw loc = Inr target \<Longrightarrow>
     new_calls w (snd (unload_document uw srv loc w)) = [Unload loc target]"
  by (simp add: unload_document_def new_calls_def split: prod.splits)

section \<open>Facts about the phases\<close>

lemma fetch_local_documents_set:
  "p \<in> set (fetch_local_documents config fs) \<longleftrightarrow>
     (\<exists>base \<in> set (file_paths config). \<exists>is_file.
        (p, is_file) \<in> set (rglob fs (resolve fs base)) \<and> included config (p, is_file))"
  by (force simp: fetch_local_documents_def)

lemma document_loaded_iff:
  "document_loaded p m loaded \<longleftrightarrow>
     (\<exists>d \<in> set loaded. local_file_path d = p \<and>
        strftime_int m \<le> strftime_int (upload_timestamp d))"
  by (induction loaded) auto

lemma calls_upload_one: "calls (upload_one fs srv p w) = calls w @ [Upload p]"
  by (simp add: upload_one_def Let_def split: prod.splits option.splits)

lemma calls_upload_new_documents:
  "calls (upload_new_documents fs srv ps loaded w) =
     calls w @ map Upload (filter (\<lambda>p. \<not> document_loaded p (st_mtime fs p) loaded) ps)"
  by (induction ps arbitrary: w) (simp_all add: calls_upload_one)

lemma new_calls_upload_new_documents:
  "new_calls w (upload_new_documents fs srv ps loaded w) =
     map Upload (filter (\<lambda>p. \<not> document_loaded p (st_mtime fs p) loaded) ps)"
  by (simp add: new_calls_def calls_upload_new_documents)

lemma upload_new_documents_append:
  "upload_new_documents fs srv (xs @ ys) loaded w =
     upload_new_documents fs srv ys loaded (upload_new_documents fs srv xs loaded w)"
  by (induction xs arbitrary: w) simp_all

lemma db_upload_one:
  "db (upload_one fs srv q w) =
     db w @ (case fst (upload_document fs srv q (remote w)) of
               Some resp \<Rightarrow>
                 [\<lparr>local_file_path = q, upload_timestamp = db_timestamp (st_mtime fs q),
                   anythingllm_document_location = location resp, content = json_dumps resp\<rparr>]
             | None \<Rightarrow> [])"
  by (simp add: upload_one_def Let_def add_document_def split: prod.splits option.splits)

lemma filter_db_upload_one_other:
  "q \<noteq> p \<Longrightarrow> filter (\<lambda>d. local_file_path d = p) (db (upload_one fs srv q w))
      = filter (\<lambda>d. local_file_path d = p) (db w)"
  by (simp add: db_upload_one split: option.splits)

lemma filter_db_upload_new_other:
  "p \<notin> set ps \<Longrightarrow>
     filter (\<lambda>d. local_file_path d = p) (db (upload_new_documents fs srv ps loaded w))
       = filter (\<lambda>d. local_file_path d = p) (db w)"
  by (induction ps arbitrary: w) (auto simp: filter_db_upload_one_other)

lemma calls_unembed_fold:
  "calls (foldl (\<lambda>w loc. unembed_document srv loc w) w locs) = calls w @ map Unembed locs"
  by (induction locs arbitrary: w) (simp_all add: unembed_document_def)

lemma new_calls_remove_embedded_documents:
  "new_calls w (remove_embedded_documents srv local loaded embedded w) =
     map Unembed (to_unembed local loaded embedded)"
  by (simp add: new_calls_def remove_embedded_documents_def calls_unembed_fold)

lemma count_unembed:
  assumes "distinct embedded" "e \<in> set embedded"
  shows "count_list (new_calls w (remove_embedded_documents srv local loaded embedded w))
           (Unembed e)
           = (if must_unembed local loaded e then 1 else 0)"
  using assms
  by (simp add: new_calls_remove_embedded_documents count_list_map_Unembed to_unembed_def
      count_list_distinct)

lemma calls_purge_mode:
  "calls (purge_mode srv a w) =
     calls w
     @ (let e = fetch_embedded_workspace_documents srv (remote w)
        in if e = [] then [] else [PurgeEmbeddings e])
     @ (if fst (purge_embeddings srv w) \<and> purge_raw a \<and> get_documents (db w) \<noteq> []
        then [PurgeRaw (map anythingllm_document_location (get_documents (db w)))] else [])"
  by (auto simp: purge_mode_def purge_embeddings_def purge_raw_files_def unlink_db_def Let_def
      split: prod.splits)

lemma main_normal:
  "authenticate srv (remote w) \<Longrightarrow> db_exists w \<Longrightarrow> \<not> force a \<Longrightarrow> \<not> purge a \<Longrightarrow>
     main uw a config fs srv w = normal_sync uw config fs srv w"
  by (simp add: main_def initialize_database_def)

lemma main_purge:
  "authenticate srv (remote w) \<Longrightarrow> db_exists w \<Longrightarrow> \<not> force a \<Longrightarrow> purge a \<Longrightarrow>
     main uw a config fs srv w = purge_mode srv a w"
  by (simp add: main_def initialize_database_def)

section \<open>Runs on the concrete corpus\<close>

lemmas example_defs = example_config_def example_fs_def sim_server_def doc_a_old_def
  doc_a_synced_def doc_gone_def world_of_def normal_args_def purge_raw_args_def t_old_def
  t_new_def raw_failing_server_def overlap_fs_def overlap_config_def

lemmas engine_defs = upload_one_def upload_document_def add_document_def get_documents_def
  remove_document_def strftime_int_def db_timestamp_def path_name_def supported_file_types_def
  embed_new_documents_def to_embed_def embed_new_document_def
  remove_embedded_documents_def to_unembed_def must_unembed_def unembed_document_def
  remove_loaded_documents_def to_unload_def unload_one_def unload_document_def unload_target_def
  xlsx_sheet_at_def is_word_char_def index_minus_2_def fetch_embedded_workspace_documents_def
  authenticate_def initialize_database_def unlink_db_def purge_mode_def purge_embeddings_def
  purge_raw_files_def

lemma example_scan: "fetch_local_documents example_config example_fs = [''/docs/a.txt'']"
  by (simp add: fetch_local_documents_def example_config_def example_fs_def included_def
      excluded_def path_name_def file_ext_def path_suffix_def rfind_def supported_file_types_def)

lemma overlap_scan:
  "fetch_local_documents overlap_config overlap_fs
     = [''/docs/a.txt'', ''/docs/sub/b.md'', ''/docs/sub/b.md'']"
  by (simp add: fetch_local_documents_def overlap_config_def overlap_fs_def included_def
      excluded_def path_name_def file_ext_def path_suffix_def rfind_def supported_file_types_def)

lemma sim_authenticate: "authenticate sim_server r"
  by (simp add: authenticate_def sim_server_def)

lemma raw_failing_authenticate: "authenticate raw_failing_server r"
  by (simp add: authenticate_def sim_server_def raw_failing_server_def)

text \<open>
  First run: \<open>a.txt\<close> is tracked, unchanged and embedded; \<open>gone.txt\<close> is tracked and
  embedded but no longer on disk. Every request succeeds.
\<close>

lemma example_first_run:
  "normal_sync uw example_config example_fs sim_server
     (world_of [doc_a_synced, doc_gone]
        [''custom-documents/a.txt-new.json'', ''custom-documents/gone.txt-1.json''])
   = \<lparr>db = [doc_a_synced, doc_gone], db_exists = True,
      remote = [''custom-documents/a.txt-new.json''],
      calls = [Unembed ''custom-documents/gone.txt-1.json'',
               Unload ''custom-documents/gone.txt-1.json''
                 ''custom-documents/gone.txt-1.json'']\<rparr>"
  by (simp only: normal_sync_def example_scan Let_def) (simp add: example_defs engine_defs)

lemma example_second_run:
  "normal_sync uw example_config example_fs sim_server
     \<lparr>db = [doc_a_synced, doc_gone], db_exists = True,
      remote = [''custom-documents/a.txt-new.json''],
      calls = [Unembed ''custom-documents/gone.txt-1.json'',
               Unload ''custom-documents/gone.txt-1.json''
                 ''custom-documents/gone.txt-1.json'']\<rparr>
   = \<lparr>db = [doc_a_synced, doc_gone], db_exists = True,
      remote = [''custom-documents/a.txt-new.json''],
      calls = [Unembed ''custom-documents/gone.txt-1.json'',
               Unload ''custom-documents/gone.txt-1.json''
                 ''custom-documents/gone.txt-1.json'',
               Embed ''custom-documents/gone.txt-1.json'',
               Unembed ''custom-documents/gone.txt-1.json'',
               Unload ''custom-documents/gone.txt-1.json''
                 ''custom-documents/gone.txt-1.json'']\<rparr>"
  by (simp only: normal_sync_def example_scan Let_def) (simp add: example_defs engine_defs)

section \<open>The claims\<close>

subsection \<open>Ledger records per local path\<close>

text \<open>
  C1. Change detection: when the file is newer than its record, an upload call occurs, and
  afterwards the ledger should hold exactly one record for that path, every operation
  keeping at most one record per \<open>local_path\<close>. In the code \<open>add_document\<close> is an
  \<open>INSERT\<close> into a table keyed by its own \<open>id\<close>: on the concrete corpus, with \<open>a.txt\<close>
  tracked at \<open>t_old\<close> and modified at \<open>t_new\<close>, phase 1 uploads the file and the ledger
  then holds two records for \<open>/docs/a.txt\<close>, the stale one and the new one.
\<close>

theorem C1_reupload_duplicates_record:
  "strftime_int (upload_timestamp doc_a_old) < strftime_int (st_mtime example_fs ''/docs/a.txt'')
   \<and> new_calls (world_of [doc_a_old] [])
        (upload_new_documents example_fs sim_server [''/docs/a.txt''] [doc_a_old]
           (world_of [doc_a_old] []))
        = [Upload ''/docs/a.txt'']
   \<and> filter (\<lambda>d. local_file_path d = ''/docs/a.txt'')
        (db (upload_new_documents example_fs sim_server [''/docs/a.txt''] [doc_a_old]
               (world_of [doc_a_old] [])))
        = [doc_a_old, doc_a_synced]"
  by (simp add: new_calls_def example_defs engine_defs)

subsection \<open>Phase 4 and the ledger\<close>

text \<open>
  C2. Phase 4 calls unload for every tracked document whose path is no longer desired and
  should delete the record exactly when the call succeeds. The code hands the remote
  location to \<open>remove_document\<close>, which deletes by \<open>local_file_path\<close>: on the concrete
  corpus the unload of \<open>gone.txt\<close> succeeds (status 200) and its record is still in the
  ledger afterwards.
\<close>

theorem C2_record_survives_successful_unload:
  "fst (post_remove_documents sim_server ''custom-documents/gone.txt-1.json'' []) = 200
   \<and> to_unload [] [doc_gone] = [''custom-documents/gone.txt-1.json'']
   \<and> remove_loaded_documents unicode_word sim_server [] [doc_gone] (world_of [doc_gone] [])
       = \<lparr>db = [doc_gone], db_exists = True, remote = [],
          calls = [Unload ''custom-documents/gone.txt-1.json''
                     ''custom-documents/gone.txt-1.json'']\<rparr>"
  by (simp add: example_defs engine_defs)

subsection \<open>Idempotence\<close>

text \<open>
  C3. A second run after a complete, successful first run, with nothing changed locally or
  remotely in between, should make no upload, embed, unembed or unload call. On the
  concrete corpus the first run unembeds and unloads \<open>gone.txt\<close>, the record stays in the
  ledger (the defect of C2), and the second run embeds, unembeds and unloads it again.
\<close>

theorem C3_second_run_repeats_calls:
  "new_calls
     (main unicode_word normal_args example_config example_fs sim_server
        (world_of [doc_a_synced, doc_gone]
           [''custom-documents/a.txt-new.json'', ''custom-documents/gone.txt-1.json'']))
     (main unicode_word normal_args example_config example_fs sim_server
        (main unicode_word normal_args example_config example_fs sim_server
           (world_of [doc_a_synced, doc_gone]
              [''custom-documents/a.txt-new.json'', ''custom-documents/gone.txt-1.json''])))
   = [Embed ''custom-documents/gone.txt-1.json'',
      Unembed ''custom-documents/gone.txt-1.json'',
      Unload ''custom-documents/gone.txt-1.json'' ''custom-documents/gone.txt-1.json'']"
proof -
  let ?w0 = "world_of [doc_a_synced, doc_gone]
               [''custom-documents/a.txt-new.json'', ''custom-documents/gone.txt-1.json'']"
  have a: "\<not> force normal_args" "\<not> purge normal_args"
    by (simp_all add: normal_args_def)
  have e0: "db_exists ?w0" by (simp add: world_of_def)
  have r1: "main unicode_word normal_args example_config example_fs sim_server ?w0
              = normal_sync unicode_word example_config example_fs sim_server ?w0"
    using sim_authenticate e0 a by (rule main_normal)
  let ?w1 = "normal_sync unicode_word example_config example_fs sim_server ?w0"
  have e1: "db_exists ?w1" by (simp only: example_first_run) simp
  have r2: "main unicode_word normal_args example_config example_fs sim_server ?w1
              = normal_sync unicode_word example_config example_fs sim_server ?w1"
    using sim_authenticate e1 a by (rule main_normal)
  show ?thesis
    unfolding r1 r2
    by (simp only: example_first_run example_second_run) (simp add: new_calls_def)
qed

subsection \<open>Purge mode\<close>

text \<open>
  C4. A failed bulk purge call should abort the run at once, so that the ledger is not
  discarded after it. The code returns after a failed purge of the embeddings, but only
  logs a failed deletion of the raw files: on the concrete corpus, with the raw deletion
  answering 500, the run goes on and the ledger is discarded.
\<close>

theorem C4_ledger_discarded_after_failed_raw_purge:
  "fst (delete_purge_raw raw_failing_server [''custom-documents/gone.txt-1.json''] []) = 500
   \<and> main unicode_word purge_raw_args example_config example_fs raw_failing_server
       (world_of [doc_gone] [])
       = \<lparr>db = [], db_exists = False, remote = [],
          calls = [PurgeRaw [''custom-documents/gone.txt-1.json'']]\<rparr>"
  by (simp add: main_def example_defs engine_defs)

text \<open>
  C5. With purge-raw, the bulk raw-deletion request names exactly the remote locations of
  the records in the ledger at that time: any such request of a purge run carries the
  locations of the ledger's records, in the ledger's order, and exactly one such request is
  made when the purge of the embeddings did not fail and the ledger is not empty.
\<close>

theorem C5_purge_raw_scope:
  "(\<forall>names. PurgeRaw names \<in> set (new_calls w (purge_mode srv a w)) \<longrightarrow>
       purge_raw a \<and> names = map anythingllm_document_location (get_documents (db w)))
   \<and> (purge_raw a \<and> fst (purge_embeddings srv w) \<and> get_documents (db w) \<noteq> [] \<longrightarrow>
       count_list (new_calls w (purge_mode srv a w))
         (PurgeRaw (map anythingllm_document_location (get_documents (db w)))) = 1)"
  by (auto simp: new_calls_def calls_purge_mode Let_def split: if_splits)

theorem C5_purge_raw_scope_witness:
  "purge_raw purge_raw_args
   \<and> fst (purge_embeddings sim_server (world_of [doc_a_synced, doc_gone] []))
   \<and> get_documents (db (world_of [doc_a_synced, doc_gone] [])) \<noteq> []
   \<and> count_list
       (new_calls (world_of [doc_a_synced, doc_gone] [])
          (purge_mode sim_server purge_raw_args (world_of [doc_a_synced, doc_gone] [])))
       (PurgeRaw [''custom-documents/a.txt-new.json'', ''custom-documents/gone.txt-1.json'']) = 1"
proof -
  have h: "purge_raw purge_raw_args
      \<and> fst (purge_embeddings sim_server (world_of [doc_a_synced, doc_gone] []))
      \<and> get_documents (db (world_of [doc_a_synced, doc_gone] [])) \<noteq> []"
    by (simp add: example_defs engine_defs)
  have m: "map anythingllm_document_location
             (get_documents (db (world_of [doc_a_synced, doc_gone] [])))
           = [''custom-documents/a.txt-new.json'', ''custom-documents/gone.txt-1.json'']"
    by (simp add: example_defs get_documents_def)
  show ?thesis
    using h m
      C5_purge_raw_scope [of "world_of [doc_a_synced, doc_gone] []" sim_server purge_raw_args]
    by simp
qed

subsection \<open>The spreadsheet rewrite\<close>

text \<open>
  C6, as the claim states it, fails: a location that is not of the form
  \<open><name>.xlsx-<id>/sheet-<n>.json\<close> can still be rewritten, because the code searches
  for \<open>.xlsx-\<close>, word characters and \<open>/sheet\<close> anywhere in the location.
  \<open>foo.xlsx-abc123/sheet-Sheet1.txt\<close> does not end in \<open>.json\<close>, and its request names
  \<open>foo.xlsx-abc123\<close>, whatever the classification of the characters outside ASCII.
\<close>

theorem C6_counterexample:
  "(\<forall>unicode_word.
      unload_target unicode_word ''foo.xlsx-abc123/sheet-Sheet1.txt'' = Inr ''foo.xlsx-abc123'')
   \<and> \<not> (\<exists>name ident n.
          ''foo.xlsx-abc123/sheet-Sheet1.txt''
            = name @ ''.xlsx-'' @ ident @ ''/sheet-'' @ n @ ''.json'')"
proof
  show "\<forall>unicode_word.
      unload_target unicode_word ''foo.xlsx-abc123/sheet-Sheet1.txt'' = Inr ''foo.xlsx-abc123''"
    by (simp add: unload_target_def xlsx_sheet_at_def is_word_char_def index_minus_2_def)
next
  show "\<not> (\<exists>name ident n.
          ''foo.xlsx-abc123/sheet-Sheet1.txt''
            = name @ ''.xlsx-'' @ ident @ ''/sheet-'' @ n @ ''.json'')"
  proof
    assume "\<exists>name ident n.
          ''foo.xlsx-abc123/sheet-Sheet1.txt''
            = name @ ''.xlsx-'' @ ident @ ''/sheet-'' @ n @ ''.json''"
    then obtain name ident n where
      e: "''foo.xlsx-abc123/sheet-Sheet1.txt''
            = name @ ''.xlsx-'' @ ident @ ''/sheet-'' @ n @ ''.json''"
      by blast
    have "last ''foo.xlsx-abc123/sheet-Sheet1.txt''
            = last (name @ ''.xlsx-'' @ ident @ ''/sheet-'' @ n @ ''.json'')"
      using e by (rule arg_cong)
    then show False by simp
  qed
qed

text \<open>
  C6, amended. A word character is what \<open>\w\<close> matches: an ASCII letter, digit or
  underscore, or a character outside ASCII that the Unicode database classifies as
  alphanumeric. The request of \<open>unload_document\<close> names: (1) for a location
  \<open><dir><name>.xlsx-<id>/sheet-<n>.json\<close>, where \<open><dir>\<close> is empty or ends with a slash,
  \<open><name>\<close> and \<open><n>\<close> contain no slash and \<open><id>\<close> is a non-empty run of word
  characters, the folder \<open><name>.xlsx-<id>\<close>; (2) for any location in which \<open>.xlsx-\<close>,
  one or more word characters and \<open>/sheet\<close> occur in a row, the component before the last
  slash; (3) for every other location, the location itself.
\<close>

theorem C6_unload_rewrite:
  "((dir = [] \<or> last dir = CHR ''/'') \<and> CHR ''/'' \<notin> set name \<and> CHR ''/'' \<notin> set n \<and>
      ident \<noteq> [] \<and> (\<forall>c \<in> set ident. is_word_char unicode_word c) \<longrightarrow>
      new_calls w (snd (unload_document unicode_word srv
                          (dir @ name @ ''.xlsx-'' @ ident @ ''/sheet-'' @ n @ ''.json'') w))
        = [Unload (dir @ name @ ''.xlsx-'' @ ident @ ''/sheet-'' @ n @ ''.json'')
             (name @ ''.xlsx-'' @ ident)])
   \<and> (re_search_xlsx_sheet unicode_word loc \<longrightarrow>
        (\<exists>pre x y. py_split CHR ''/'' loc = pre @ [x, y] \<and>
           new_calls w (snd (unload_document unicode_word srv loc w)) = [Unload loc x]))
   \<and> (\<not> re_search_xlsx_sheet unicode_word loc \<longrightarrow>
        new_calls w (snd (unload_document unicode_word srv loc w)) = [Unload loc loc])"
proof (intro conjI impI)
  assume "(dir = [] \<or> last dir = CHR ''/'') \<and> CHR ''/'' \<notin> set name \<and> CHR ''/'' \<notin> set n \<and>
      ident \<noteq> [] \<and> (\<forall>c \<in> set ident. is_word_char unicode_word c)"
  then have "unload_target unicode_word
               (dir @ name @ ''.xlsx-'' @ ident @ ''/sheet-'' @ n @ ''.json'')
           = Inr (name @ ''.xlsx-'' @ ident)"
    by (intro unload_target_sheet) simp_all
  then show "new_calls w (snd (unload_document unicode_word srv
                          (dir @ name @ ''.xlsx-'' @ ident @ ''/sheet-'' @ n @ ''.json'') w))
        = [Unload (dir @ name @ ''.xlsx-'' @ ident @ ''/sheet-'' @ n @ ''.json'')
             (name @ ''.xlsx-'' @ ident)]"
    by (rule new_calls_unload_document)
next
  assume "re_search_xlsx_sheet unicode_word loc"
  then obtain pre x y where
    p: "py_split CHR ''/'' loc = pre @ [x, y]" and t: "unload_target unicode_word loc = Inr x"
    using unload_target_match by blast
  have "new_calls w (snd (unload_document unicode_word srv loc w)) = [Unload loc x]"
    using t by (rule new_calls_unload_document)
  then show "\<exists>pre x y. py_split CHR ''/'' loc = pre @ [x, y] \<and>
           new_calls w (snd (unload_document unicode_word srv loc w)) = [Unload loc x]"
    using p by blast
next
  assume "\<not> re_search_xlsx_sheet unicode_word loc"
  then have "unload_target unicode_word loc = Inr loc" by (simp add: unload_target_def)
  then show "new_calls w (snd (unload_document unicode_word srv loc w)) = [Unload loc loc]"
    by (rule new_calls_unload_document)
qed

text \<open>
  The theorem at three locations: the sheet of the specification's example; a sheet whose
  \<open><id>\<close> is \<open>e\<close> with an acute accent (U+00E9), a word character outside ASCII; and a
  location that is no sheet.
\<close>

theorem C6_unload_rewrite_witness:
  "CHR ''/'' \<notin> set ''foo'' \<and> CHR ''/'' \<notin> set ''Sheet1'' \<and> ''abc123'' \<noteq> [] \<and>
   list_all (is_word_char latin1_word) ''abc123'' \<and>
   new_calls (world_of [] [])
     (snd (unload_document latin1_word sim_server ''foo.xlsx-abc123/sheet-Sheet1.json''
             (world_of [] [])))
     = [Unload ''foo.xlsx-abc123/sheet-Sheet1.json'' ''foo.xlsx-abc123'']
   \<and> re_search_xlsx_sheet latin1_word (''foo.xlsx-'' @ [CHR 0xE9] @ ''/sheet-1.json'')
   \<and> new_calls (world_of [] [])
       (snd (unload_document latin1_word sim_server
               (''foo.xlsx-'' @ [CHR 0xE9] @ ''/sheet-1.json'') (world_of [] [])))
       = [Unload (''foo.xlsx-'' @ [CHR 0xE9] @ ''/sheet-1.json'') (''foo.xlsx-'' @ [CHR 0xE9])]
   \<and> \<not> re_search_xlsx_sheet latin1_word ''custom-documents/gone.txt-1.json''
   \<and> new_calls (world_of [] [])
       (snd (unload_document latin1_word sim_server ''custom-documents/gone.txt-1.json''
               (world_of [] [])))
       = [Unload ''custom-documents/gone.txt-1.json'' ''custom-documents/gone.txt-1.json'']"
proof -
  have h: "CHR ''/'' \<notin> set ''foo'' \<and> CHR ''/'' \<notin> set ''Sheet1'' \<and> ''abc123'' \<noteq> [] \<and>
      (\<forall>c \<in> set ''abc123''. is_word_char latin1_word c)"
    by (simp add: is_word_char_def)
  have l: "list_all (is_word_char latin1_word) ''abc123''"
    by (simp add: is_word_char_def)
  have g: "\<not> re_search_xlsx_sheet latin1_word ''custom-documents/gone.txt-1.json''"
    by (simp add: xlsx_sheet_at_def)
  have h2: "CHR ''/'' \<notin> set ''foo'' \<and> CHR ''/'' \<notin> set ''1'' \<and> [CHR 0xE9] \<noteq> [] \<and>
      (\<forall>c \<in> set [CHR 0xE9]. is_word_char latin1_word c)"
    by (simp add: is_word_char_def latin1_word_def)
  have m: "re_search_xlsx_sheet latin1_word (''foo.xlsx-'' @ [CHR 0xE9] @ ''/sheet-1.json'')"
    by (simp add: xlsx_sheet_at_def is_word_char_def latin1_word_def)
  show ?thesis
    using h l g h2 m
      C6_unload_rewrite [of "[]" "''foo''" "''Sheet1''" "''abc123''" latin1_word
        "world_of [] []" sim_server "''custom-documents/gone.txt-1.json''"]
      C6_unload_rewrite [of "[]" "''foo''" "''1''" "[CHR 0xE9]" latin1_word
        "world_of [] []" sim_server "''custom-documents/gone.txt-1.json''"]
    by simp
qed

subsection \<open>Phase 1\<close>

text \<open>
  C7, as the claim states it, fails: the scanner appends the files of every configured root
  to one list and removes no repetition, and phase 1 compares every element with the ledger
  as it was before the phase. With the roots \<open>/docs\<close> and \<open>/docs/sub\<close> the untracked
  file \<open>/docs/sub/b.md\<close> is in the desired list twice; phase 1 makes two upload calls
  for it and the ledger then holds two records for it.
\<close>

theorem C7_counterexample:
  "fetch_local_documents overlap_config overlap_fs
     = [''/docs/a.txt'', ''/docs/sub/b.md'', ''/docs/sub/b.md'']
   \<and> get_documents (db (world_of [] [])) = []
   \<and> count_list
       (new_calls (world_of [] [])
          (upload_new_documents overlap_fs sim_server
             (fetch_local_documents overlap_config overlap_fs)
             (get_documents (db (world_of [] []))) (world_of [] [])))
       (Upload ''/docs/sub/b.md'') = 2
   \<and> map local_file_path
       (db (upload_new_documents overlap_fs sim_server
              (fetch_local_documents overlap_config overlap_fs)
              (get_documents (db (world_of [] []))) (world_of [] [])))
       = [''/docs/a.txt'', ''/docs/sub/b.md'', ''/docs/sub/b.md'']"
  by (simp only: overlap_scan) (simp add: new_calls_def example_defs engine_defs)

text \<open>
  C7, amended. For a path that has no record in the ledger, phase 1 makes one upload call
  for each occurrence of the path in the desired list. When the path occurs exactly once,
  that is exactly one upload call, and afterwards the ledger holds for that path exactly one
  record when the upload succeeded, made of the path, the file's modification time as the
  ledger stores it (whole seconds, the same \<open>YYYYMMDDHHMMSS\<close> value) and the location and
  JSON text of the response, and no record when the upload failed. The state of the server
  at the call is the one reached after the files listed before the path.
\<close>

theorem C7_new_file_upload:
  assumes "loaded = get_documents (db w)"
      and "\<forall>d \<in> set loaded. local_file_path d \<noteq> p"
  shows "count_list (new_calls w (upload_new_documents fs srv local_documents loaded w))
           (Upload p) = count_list local_documents p
       \<and> (count_list local_documents p = 1 \<longrightarrow>
            filter (\<lambda>d. local_file_path d = p)
              (db (upload_new_documents fs srv local_documents loaded w))
              = (case fst (upload_document fs srv p
                             (remote (upload_new_documents fs srv
                                        (takeWhile (\<lambda>q. q \<noteq> p) local_documents) loaded w))) of
                   Some resp \<Rightarrow>
                     [\<lparr>local_file_path = p, upload_timestamp = db_timestamp (st_mtime fs p),
                       anythingllm_document_location = location resp,
                       content = json_dumps resp\<rparr>]
                 | None \<Rightarrow> []))
       \<and> strftime_int (db_timestamp (st_mtime fs p)) = strftime_int (st_mtime fs p)"
proof (intro conjI impI)
  have nl: "\<not> document_loaded p (st_mtime fs p) loaded"
    using assms(2) by (auto simp: document_loaded_iff)
  show "count_list (new_calls w (upload_new_documents fs srv local_documents loaded w))
          (Upload p) = count_list local_documents p"
    using nl
    by (simp add: new_calls_upload_new_documents count_list_map_Upload count_list_filter)
  show "strftime_int (db_timestamp (st_mtime fs p)) = strftime_int (st_mtime fs p)"
    by (rule strftime_int_db_timestamp)
  assume once: "count_list local_documents p = 1"
  then have "p \<in> set local_documents"
    by (metis count_list_0_iff zero_neq_one)
  then obtain xs ys where split: "local_documents = xs @ p # ys" and nx: "p \<notin> set xs"
    by (meson split_list_first)
  have "count_list ys p = 0" using once nx by (simp add: split)
  then have ny: "p \<notin> set ys" by (simp add: count_list_0_iff)
  have tw: "takeWhile (\<lambda>q. q \<noteq> p) local_documents = xs"
    using nx by (simp add: split takeWhile_first)
  let ?w1 = "upload_new_documents fs srv xs loaded w"
  have none: "filter (\<lambda>d. local_file_path d = p) (db w) = []"
    using assms by (auto simp: get_documents_def filter_empty_conv)
  have f1: "filter (\<lambda>d. local_file_path d = p) (db ?w1) = []"
    using nx none by (simp add: filter_db_upload_new_other)
  have run: "upload_new_documents fs srv local_documents loaded w =
      upload_new_documents fs srv ys loaded (upload_one fs srv p ?w1)"
    using nl by (simp add: split upload_new_documents_append)
  have "filter (\<lambda>d. local_file_path d = p)
          (db (upload_new_documents fs srv local_documents loaded w))
      = filter (\<lambda>d. local_file_path d = p) (db (upload_one fs srv p ?w1))"
    unfolding run using ny by (rule filter_db_upload_new_other)
  also have "\<dots> = (case fst (upload_document fs srv p (remote ?w1)) of
                Some resp \<Rightarrow>
                  [\<lparr>local_file_path = p, upload_timestamp = db_timestamp (st_mtime fs p),
                    anythingllm_document_location = location resp, content = json_dumps resp\<rparr>]
              | None \<Rightarrow> [])"
    using f1 by (simp add: db_upload_one split: option.splits)
  finally show "filter (\<lambda>d. local_file_path d = p)
              (db (upload_new_documents fs srv local_documents loaded w))
              = (case fst (upload_document fs srv p
                             (remote (upload_new_documents fs srv
                                        (takeWhile (\<lambda>q. q \<noteq> p) local_documents) loaded w))) of
                   Some resp \<Rightarrow>
                     [\<lparr>local_file_path = p, upload_timestamp = db_timestamp (st_mtime fs p),
                       anythingllm_document_location = location resp,
                       content = json_dumps resp\<rparr>]
                 | None \<Rightarrow> [])"
    by (simp add: tw)
qed

text \<open>
  The theorem on a desired list of two files and a ledger that tracks a third one: the
  second file is uploaded once, after the first, and gets its one record.
\<close>

theorem C7_new_file_upload_witness:
  "''/docs/sub/b.md'' \<notin>
     set (map local_file_path (get_documents (db (world_of [doc_gone] []))))
   \<and> count_list [''/docs/a.txt'', ''/docs/sub/b.md''] ''/docs/sub/b.md'' = 1
   \<and> count_list
       (new_calls (world_of [doc_gone] [])
          (upload_new_documents example_fs sim_server [''/docs/a.txt'', ''/docs/sub/b.md'']
             (get_documents (db (world_of [doc_gone] []))) (world_of [doc_gone] [])))
       (Upload ''/docs/sub/b.md'') = 1
   \<and> filter (\<lambda>d. local_file_path d = ''/docs/sub/b.md'')
       (db (upload_new_documents example_fs sim_server [''/docs/a.txt'', ''/docs/sub/b.md'']
              (get_documents (db (world_of [doc_gone] []))) (world_of [doc_gone] [])))
       = [\<lparr>local_file_path = ''/docs/sub/b.md'', upload_timestamp = db_timestamp t_new,
           anythingllm_document_location = ''custom-documents/b.md-new.json'',
           content = ''{}''\<rparr>]"
proof -
  have h: "\<forall>d \<in> set (get_documents (db (world_of [doc_gone] []))).
             local_file_path d \<noteq> ''/docs/sub/b.md''"
    by (simp add: example_defs get_documents_def)
  have k: "''/docs/sub/b.md'' \<notin>
             set (map local_file_path (get_documents (db (world_of [doc_gone] []))))"
    by (simp add: example_defs get_documents_def)
  have c: "count_list [''/docs/a.txt'', ''/docs/sub/b.md''] ''/docs/sub/b.md'' = 1"
    by simp
  have u: "fst (upload_document example_fs sim_server ''/docs/sub/b.md'' r)
           = Some \<lparr>location = ''custom-documents/b.md-new.json'', json_dumps = ''{}''\<rparr>" for r
    by (simp add: example_defs engine_defs)
  have t: "st_mtime example_fs ''/docs/sub/b.md'' = t_new"
    by (simp add: example_fs_def)
  show ?thesis
    using k c
      C7_new_file_upload [OF refl h, of example_fs sim_server
        "[''/docs/a.txt'', ''/docs/sub/b.md'']"]
    by (simp only: u t option.case) simp
qed

text \<open>
  C10. In phase 1 an upload of a desired path is attempted exactly when no record of the
  tracked collection has that path and a \<open>synced_at\<close> whose \<open>YYYYMMDDHHMMSS\<close> value is
  greater than or equal to that of the file's modification time; one such record is
  enough, whatever other records the path has.
\<close>

theorem C10_upload_iff_no_fresh_record:
  "p \<in> set local_documents \<Longrightarrow>
   Upload p \<in> set (new_calls w (upload_new_documents fs srv local_documents loaded w)) \<longleftrightarrow>
     \<not> (\<exists>d \<in> set loaded. local_file_path d = p \<and>
           strftime_int (upload_timestamp d) \<ge> strftime_int (st_mtime fs p))"
  by (auto simp: new_calls_upload_new_documents document_loaded_iff)

theorem C10_upload_iff_no_fresh_record_witness:
  "''/docs/a.txt'' \<in> set [''/docs/a.txt'']
   \<and> local_file_path doc_a_synced = ''/docs/a.txt''
   \<and> strftime_int (upload_timestamp doc_a_synced)
         \<ge> strftime_int (st_mtime example_fs ''/docs/a.txt'')
   \<and> strftime_int (upload_timestamp doc_a_old)
         < strftime_int (st_mtime example_fs ''/docs/a.txt'')
   \<and> Upload ''/docs/a.txt'' \<notin>
       set (new_calls (world_of [doc_a_old, doc_a_synced] [])
              (upload_new_documents example_fs sim_server [''/docs/a.txt'']
                 [doc_a_old, doc_a_synced] (world_of [doc_a_old, doc_a_synced] [])))"
proof -
  have h: "\<exists>d \<in> set [doc_a_old, doc_a_synced]. local_file_path d = ''/docs/a.txt'' \<and>
         strftime_int (upload_timestamp d) \<ge> strftime_int (st_mtime example_fs ''/docs/a.txt'')"
    by (simp add: example_defs strftime_int_def db_timestamp_def)
  have k: "local_file_path doc_a_synced = ''/docs/a.txt''
      \<and> strftime_int (upload_timestamp doc_a_synced)
            \<ge> strftime_int (st_mtime example_fs ''/docs/a.txt'')
      \<and> strftime_int (upload_timestamp doc_a_old)
            < strftime_int (st_mtime example_fs ''/docs/a.txt'')"
    by (simp add: example_defs strftime_int_def db_timestamp_def)
  show ?thesis
    using h k
      C10_upload_iff_no_fresh_record [of "''/docs/a.txt''" "[''/docs/a.txt'']"
        "world_of [doc_a_old, doc_a_synced] []" example_fs sim_server "[doc_a_old, doc_a_synced]"]
    by simp
qed

subsection \<open>Phase 3\<close>

text \<open>
  C8. In phase 3, for every member of the embedded set: exactly one unembed call names it
  when no tracked document has it as its remote location, or when the tracked document
  found for it (the first of the ledger with that location) has a path that is not desired;
  no unembed call names it when that document's path is desired.
\<close>

theorem C8_unembed_count:
  assumes "e \<in> set (fetch_embedded_workspace_documents srv (remote w))"
  shows "((\<forall>d \<in> set loaded. anythingllm_document_location d \<noteq> e) \<longrightarrow>
            count_list
              (new_calls w (remove_embedded_documents srv local_documents loaded
                              (fetch_embedded_workspace_documents srv (remote w)) w))
              (Unembed e) = 1)
       \<and> (\<forall>d. find (\<lambda>d. anythingllm_document_location d = e) loaded = Some d \<longrightarrow>
            count_list
              (new_calls w (remove_embedded_documents srv local_documents loaded
                              (fetch_embedded_workspace_documents srv (remote w)) w))
              (Unembed e)
              = (if local_file_path d \<in> set local_documents then 0 else 1))"
proof -
  have d: "distinct (fetch_embedded_workspace_documents srv (remote w))"
    by (simp add: fetch_embedded_workspace_documents_def)
  have none: "(\<forall>d \<in> set loaded. anythingllm_document_location d \<noteq> e) \<Longrightarrow>
      find (\<lambda>d. anythingllm_document_location d = e) loaded = None"
    by (auto simp: find_None_iff)
  show ?thesis
    using count_unembed [OF d assms, of w srv local_documents loaded] none
    by (auto simp: must_unembed_def)
qed

theorem C8_unembed_count_witness:
  "''custom-documents/orphan.json'' \<in>
     set (fetch_embedded_workspace_documents sim_server
            (remote (world_of [doc_a_synced]
                       [''custom-documents/a.txt-new.json'', ''custom-documents/orphan.json''])))
   \<and> ''custom-documents/orphan.json'' \<notin> set (map anythingllm_document_location [doc_a_synced])
   \<and> count_list
       (new_calls
          (world_of [doc_a_synced]
             [''custom-documents/a.txt-new.json'', ''custom-documents/orphan.json''])
          (remove_embedded_documents sim_server [''/docs/a.txt''] [doc_a_synced]
             (fetch_embedded_workspace_documents sim_server
                (remote (world_of [doc_a_synced]
                           [''custom-documents/a.txt-new.json'',
                            ''custom-documents/orphan.json''])))
             (world_of [doc_a_synced]
                [''custom-documents/a.txt-new.json'', ''custom-documents/orphan.json''])))
       (Unembed ''custom-documents/orphan.json'') = 1"
proof -
  have m: "''custom-documents/orphan.json'' \<in>
     set (fetch_embedded_workspace_documents sim_server
            (remote (world_of [doc_a_synced]
                       [''custom-documents/a.txt-new.json'', ''custom-documents/orphan.json''])))"
    by (simp add: fetch_embedded_workspace_documents_def sim_server_def world_of_def)
  have h: "\<forall>d \<in> set [doc_a_synced].
         anythingllm_document_location d \<noteq> ''custom-documents/orphan.json''"
    by (simp add: doc_a_synced_def)
  have k: "''custom-documents/orphan.json'' \<notin>
             set (map anythingllm_document_location [doc_a_synced])"
    by (simp add: doc_a_synced_def)
  show ?thesis
    using m h k
      C8_unembed_count [OF m, of "[doc_a_synced]" "[''/docs/a.txt'']"]
    by blast
qed

subsection \<open>The local scanner\<close>

text \<open>
  C9. A file whose path contains a directory-exclude substring is never in the desired set,
  whatever its extension: the exclusion is decided before the extension is looked at.
\<close>

theorem C9_exclude_precedence:
  "excl \<in> set (directory_excludes config) \<Longrightarrow> py_in excl p \<Longrightarrow>
     p \<notin> set (fetch_local_documents config fs)"
  by (auto simp: fetch_local_documents_set included_def excluded_def list_ex_iff)

theorem C9_exclude_precedence_witness:
  "''.git'' \<in> set (directory_excludes example_config)
   \<and> py_in ''.git'' ''/docs/.git/c.txt''
   \<and> (''/docs/.git/c.txt'', True) \<in> set (rglob example_fs (resolve example_fs ''/docs''))
   \<and> file_ext ''/docs/.git/c.txt'' \<in> set supported_file_types
   \<and> ''/docs/.git/c.txt'' \<notin> set (fetch_local_documents example_config example_fs)"
proof -
  have h1: "''.git'' \<in> set (directory_excludes example_config)"
    by (simp add: example_config_def)
  have h2: "py_in ''.git'' ''/docs/.git/c.txt''" by simp
  have h3: "(''/docs/.git/c.txt'', True) \<in> set (rglob example_fs (resolve example_fs ''/docs''))"
    by (simp add: example_fs_def)
  have h4: "file_ext ''/docs/.git/c.txt'' \<in> set supported_file_types"
    by (simp add: file_ext_def path_suffix_def path_name_def rfind_def supported_file_types_def)
  show ?thesis
    using h1 h2 h3 h4 C9_exclude_precedence [OF h1 h2, of example_fs] by blast
qed

end
